theory Spec2Isabelle
  imports Main "HOL-Library.AList"
begin

section \<open>Document values\<close>

text \<open>
  The collection holds plain JavaScript values. A number is modelled by the integer it
  holds (the integers a double represents exactly), a string by a \<open>char list\<close>, an array
  by a list and an object by the list of its own enumerable properties in the order
  \<^verbatim>\<open>for (key in obj)\<close> visits them. \<open>JOid h\<close> is an identifier (an \<^verbatim>\<open>ObjectId\<close>) whose
  \<^verbatim>\<open>toString()\<close> is \<open>h\<close>; the class is not part of the sources, the specification calls
  it opaque, and so the model gives it no properties of its own.

  Values are compared structurally, so \<^verbatim>\<open>_.cloneDeep\<close> is the identity and object identity
  (aliasing between the update document and a stored document) is not represented.
  Property names that JavaScript would find on a prototype (\<^verbatim>\<open>constructor\<close>,
  \<^verbatim>\<open>toString\<close>, ...) are not modelled: \<^verbatim>\<open>key in obj\<close> is membership among the own
  properties.
\<close>

datatype jsval =
    JUndefined
  | JNull
  | JBool bool
  | JNum int
  | JStr string
  | JOid string
  | JArr "jsval list"
  | JObj "(string \<times> jsval) list"

datatype error =
    TypeError
  | DocParameterRequired
  | DocMustBeAnObject
  | AllUpdateFieldsMustBeOperators
  | CannotUpdateSeveralDocuments
  | InvalidModifier string
  | CantAppendToArray string
  | CantModifyFieldOfListValue string
  | IncAllowedForNumbersOnly
  | IncOfNonNumber
  | PushToNonArray
  | PushAllPullAllArraysOnly
  | PushAllToNonArray
  | AddToSetToNonArray
  | PopOfNonArray
  | PullOfNonArray
  | RenameSourceMustDiffer
  | RenameSourceInvalid
  | RenameTargetMustBeString
  | RenameTargetInvalid
  | BitNotSupported
  | SelectorError string

text \<open>The last key part as the caller reads it back: a string, or the number an array
  index was rewritten to.\<close>

datatype keyfield = FStr string | FNum nat

definition cloneDeep :: "jsval \<Rightarrow> jsval" where
  "cloneDeep v = v"

fun typeof :: "jsval \<Rightarrow> string" where
  "typeof JUndefined = ''undefined''"
| "typeof JNull = ''object''"
| "typeof (JBool b) = ''boolean''"
| "typeof (JNum n) = ''number''"
| "typeof (JStr s) = ''string''"
| "typeof (JOid h) = ''object''"
| "typeof (JArr xs) = ''object''"
| "typeof (JObj kvs) = ''object''"

fun isArray :: "jsval \<Rightarrow> bool" where
  "isArray (JArr xs) = True"
| "isArray v = False"

fun isNil :: "jsval \<Rightarrow> bool" where
  "isNil JUndefined = True"
| "isNil JNull = True"
| "isNil v = False"

subsection \<open>Digits and numbers\<close>

definition is_digit :: "char \<Rightarrow> bool" where
  "is_digit c = (c \<in> set ''0123456789'')"

text \<open>\<^verbatim>\<open>/^[0-9]+$/.test(keypart)\<close>\<close>

definition numeric :: "string \<Rightarrow> bool" where
  "numeric s = (s \<noteq> [] \<and> list_all is_digit s)"

definition digit_val :: "char \<Rightarrow> nat" where
  "digit_val c = of_char c - 48"

text \<open>\<^verbatim>\<open>_.toNumber\<close> on a string of digits, as a natural number (exact, where a double would
  round a number of more than fifteen digits).\<close>

definition toNumber :: "string \<Rightarrow> nat" where
  "toNumber s = foldl (\<lambda>a c. 10 * a + digit_val c) 0 s"

definition digit_char :: "nat \<Rightarrow> char" where
  "digit_char d = char_of (48 + d)"

fun show_nat :: "nat \<Rightarrow> string" where
  "show_nat n = (if n < 10 then [digit_char n] else show_nat (n div 10) @ [digit_char (n mod 10)])"

declare show_nat.simps [simp del]

text \<open>\<^verbatim>\<open>_.toString\<close> on a number.\<close>

definition show_int :: "int \<Rightarrow> string" where
  "show_int i = (if i < 0 then CHR ''-'' # show_nat (nat (- i)) else show_nat (nat i))"

text \<open>A property name that is an array index: digits without a leading zero.\<close>

definition canonical_index :: "string \<Rightarrow> bool" where
  "canonical_index s = (numeric s \<and> (s = ''0'' \<or> hd s \<noteq> CHR ''0''))"

subsection \<open>Properties\<close>

definition field_key :: "keyfield \<Rightarrow> string" where
  "field_key f = (case f of FStr k \<Rightarrow> k | FNum n \<Rightarrow> show_nat n)"

definition has_key :: "string \<Rightarrow> (string \<times> jsval) list \<Rightarrow> bool" where
  "has_key k kvs = (map_of kvs k \<noteq> None)"

definition obj_get :: "(string \<times> jsval) list \<Rightarrow> string \<Rightarrow> jsval" where
  "obj_get kvs k = (case map_of kvs k of None \<Rightarrow> JUndefined | Some v \<Rightarrow> v)"

definition nth_or_undefined :: "jsval list \<Rightarrow> nat \<Rightarrow> jsval" where
  "nth_or_undefined xs i = (if i < length xs then xs ! i else JUndefined)"

text \<open>\<^verbatim>\<open>xs[i] = v\<close> on an array: JavaScript extends the array when \<open>i\<close> is past its end.\<close>

definition arr_set :: "jsval list \<Rightarrow> nat \<Rightarrow> jsval \<Rightarrow> jsval list" where
  "arr_set xs i v =
     (if i < length xs then xs[i := v]
      else xs @ replicate (i - length xs) JUndefined @ [v])"

text \<open>The position a field names in an array or a string, if it names one.\<close>

definition field_index :: "keyfield \<Rightarrow> nat option" where
  "field_index f =
     (case f of
        FNum n \<Rightarrow> Some n
      | FStr k \<Rightarrow> (if canonical_index k then Some (toNumber k) else None))"

text \<open>\<^verbatim>\<open>field in target\<close>. On a primitive, \<^verbatim>\<open>null\<close> or \<^verbatim>\<open>undefined\<close> the operator raises a
  \<^verbatim>\<open>TypeError\<close>.\<close>

fun in_op :: "keyfield \<Rightarrow> jsval \<Rightarrow> error + bool" where
  "in_op f (JObj kvs) = Inr (has_key (field_key f) kvs)"
| "in_op f (JArr xs) =
     Inr (case field_index f of
            Some i \<Rightarrow> i < length xs
          | None \<Rightarrow> f = FStr ''length'')"
| "in_op f (JOid h) = Inr False"
| "in_op f v = Inl TypeError"

text \<open>\<^verbatim>\<open>target[field]\<close>\<close>

fun prop_get :: "jsval \<Rightarrow> keyfield \<Rightarrow> error + jsval" where
  "prop_get JUndefined f = Inl TypeError"
| "prop_get JNull f = Inl TypeError"
| "prop_get (JObj kvs) f = Inr (obj_get kvs (field_key f))"
| "prop_get (JArr xs) f =
     Inr (case field_index f of
            Some i \<Rightarrow> nth_or_undefined xs i
          | None \<Rightarrow> if f = FStr ''length'' then JNum (int (length xs)) else JUndefined)"
| "prop_get (JStr s) f =
     Inr (case field_index f of
            Some i \<Rightarrow> if i < length s then JStr [s ! i] else JUndefined
          | None \<Rightarrow> if f = FStr ''length'' then JNum (int (length s)) else JUndefined)"
| "prop_get v f = Inr JUndefined"

text \<open>\<^verbatim>\<open>target[field] = v\<close>, returning the target afterwards. The source file is not in
  strict mode: an assignment to a property of a number, boolean or string does nothing.
  A property that is not an index is not an element of an array, and an identifier is
  opaque: neither write is represented.\<close>

fun prop_set :: "jsval \<Rightarrow> keyfield \<Rightarrow> jsval \<Rightarrow> error + jsval" where
  "prop_set JUndefined f v = Inl TypeError"
| "prop_set JNull f v = Inl TypeError"
| "prop_set (JObj kvs) f v = Inr (JObj (AList.update (field_key f) v kvs))"
| "prop_set (JArr xs) f v =
     Inr (case field_index f of Some i \<Rightarrow> JArr (arr_set xs i v) | None \<Rightarrow> JArr xs)"
| "prop_set t f v = Inr t"

text \<open>\<^verbatim>\<open>delete target[field]\<close>: deleting an element of an array leaves a hole.\<close>

fun prop_delete :: "jsval \<Rightarrow> keyfield \<Rightarrow> error + jsval" where
  "prop_delete JUndefined f = Inl TypeError"
| "prop_delete JNull f = Inl TypeError"
| "prop_delete (JObj kvs) f = Inr (JObj (AList.delete (field_key f) kvs))"
| "prop_delete (JArr xs) f =
     Inr (case field_index f of
            Some i \<Rightarrow> if i < length xs then JArr (xs[i := JUndefined]) else JArr xs
          | None \<Rightarrow> JArr xs)"
| "prop_delete t f = Inr t"

text \<open>\<^verbatim>\<open>for (key in val)\<close> with \<^verbatim>\<open>val[key]\<close>: the enumerable properties in order.\<close>

fun for_in :: "jsval \<Rightarrow> (string \<times> jsval) list" where
  "for_in (JObj kvs) = kvs"
| "for_in (JArr xs) = map (\<lambda>i. (show_nat i, xs ! i)) [0..<length xs]"
| "for_in (JStr s) = map (\<lambda>i. (show_nat i, JStr [s ! i])) [0..<length s]"
| "for_in v = []"

text \<open>\<^verbatim>\<open>keypath.split('.')\<close>: never empty.\<close>

fun split_dot :: "string \<Rightarrow> string list" where
  "split_dot [] = [[]]"
| "split_dot (c # cs) =
     (if c = CHR ''.'' then [] # split_dot cs
      else (case split_dot cs of p # ps \<Rightarrow> (c # p) # ps | [] \<Rightarrow> [[c]]))"

section \<open>Path resolution\<close>

text \<open>One pass of the loop of \<^verbatim>\<open>Collection._findModTarget\<close> at the node \<open>doc\<close> with the key
  part \<open>keypart\<close>. \<open>next_part\<close> is \<^verbatim>\<open>keyparts[i + 1]\<close>, used in an error message only.\<close>

datatype step_result =
    ReturnUndefined
  | ReturnNull
  | Throw error
  | ReturnNode jsval keyfield
  | Descend jsval keyfield jsval

text \<open>\<open>ReturnNode d f\<close>: \<^verbatim>\<open>return doc\<close>, the node being \<open>d\<close> after the pass and \<open>f\<close> the key
  part as left in \<^verbatim>\<open>keyparts\<close>. \<open>Descend d f c\<close>: the loop goes on with
  \<^verbatim>\<open>doc = doc[keypart]\<close>, the node being \<open>d\<close> after the pass, \<open>f\<close> the property taken and
  \<open>c\<close> its value.\<close>

definition pad_null :: "jsval list \<Rightarrow> nat \<Rightarrow> jsval list" where
  "pad_null xs k = xs @ replicate (k - length xs) JNull"

definition array_step :: "jsval list \<Rightarrow> string \<Rightarrow> string \<Rightarrow> bool \<Rightarrow> bool \<Rightarrow> step_result" where
  "array_step xs keypart next_part is_last forbid_array =
     (if forbid_array then ReturnNull
      else if \<not> numeric keypart then Throw (CantAppendToArray keypart)
      else
        let k = toNumber keypart;
            padded = pad_null xs k
        in if is_last then ReturnNode (JArr padded) (FNum k)
           else if length padded = k then Descend (JArr (padded @ [JObj []])) (FNum k) (JObj [])
           else if typeof (padded ! k) \<noteq> ''object'' then Throw (CantModifyFieldOfListValue next_part)
           else Descend (JArr padded) (FNum k) (padded ! k))"

definition object_step :: "jsval \<Rightarrow> string \<Rightarrow> bool \<Rightarrow> step_result" where
  "object_step doc keypart is_last =
     (if is_last then ReturnNode doc (FStr keypart)
      else
        (case in_op (FStr keypart) doc of
           Inl e \<Rightarrow> Throw e
         | Inr present \<Rightarrow>
             (case doc of
                JObj kvs \<Rightarrow>
                  if present then Descend doc (FStr keypart) (obj_get kvs keypart)
                  else Descend (JObj (AList.update keypart (JObj []) kvs)) (FStr keypart) (JObj [])
              | _ \<Rightarrow> Descend doc (FStr keypart) (JObj []))))"

definition no_create_guard :: "jsval \<Rightarrow> string \<Rightarrow> (error + bool)" where
  "no_create_guard doc keypart =
     (if typeof doc \<noteq> ''object'' then Inr True
      else (case in_op (FStr keypart) doc of Inl e \<Rightarrow> Inl e | Inr present \<Rightarrow> Inr (\<not> present)))"

definition step :: "jsval \<Rightarrow> string \<Rightarrow> string \<Rightarrow> bool \<Rightarrow> bool \<Rightarrow> bool \<Rightarrow> step_result" where
  "step doc keypart next_part is_last no_create forbid_array =
     (case (if no_create then no_create_guard doc keypart else Inr False) of
        Inl e \<Rightarrow> Throw e
      | Inr True \<Rightarrow> ReturnUndefined
      | Inr False \<Rightarrow>
          (case doc of
             JArr xs \<Rightarrow> array_step xs keypart next_part is_last forbid_array
           | _ \<Rightarrow> object_step doc keypart is_last))"

text \<open>Writing the value of the property a pass descended into back into its node.\<close>

fun put_child :: "jsval \<Rightarrow> keyfield \<Rightarrow> jsval \<Rightarrow> jsval" where
  "put_child (JObj kvs) f c = JObj (AList.update (field_key f) c kvs)"
| "put_child (JArr xs) f c = (case field_index f of Some i \<Rightarrow> JArr (arr_set xs i c) | None \<Rightarrow> JArr xs)"
| "put_child d f c = d"

text \<open>\<^verbatim>\<open>Collection._findModTarget(doc, keyparts, no_create, forbid_array)\<close>. The source
  returns a reference into the document it has altered on the way. The model returns
  the value the reference points at, a function that gives the whole document once
  that value is replaced, and the last key part as \<^verbatim>\<open>keyparts.pop()\<close> reads it back.\<close>

fun findModTarget ::
  "jsval \<Rightarrow> string list \<Rightarrow> bool \<Rightarrow> bool \<Rightarrow> error + (jsval \<times> (jsval \<Rightarrow> jsval) \<times> keyfield)" where
  "findModTarget doc [] no_create forbid_array = Inr (JUndefined, (\<lambda>t. doc), FStr ''undefined'')"
| "findModTarget doc (keypart # rest) no_create forbid_array =
     (case step doc keypart (case rest of [] \<Rightarrow> [] | n # ns \<Rightarrow> n) (rest = []) no_create forbid_array of
        ReturnUndefined \<Rightarrow> Inr (JUndefined, (\<lambda>t. doc), FStr (last (keypart # rest)))
      | ReturnNull \<Rightarrow> Inr (JNull, (\<lambda>t. doc), FStr (last (keypart # rest)))
      | Throw e \<Rightarrow> Inl e
      | ReturnNode d f \<Rightarrow> Inr (d, (\<lambda>t. t), f)
      | Descend d f c \<Rightarrow>
          (case findModTarget c rest no_create forbid_array of
             Inl e \<Rightarrow> Inl e
           | Inr (t, rebuild, fld) \<Rightarrow> Inr (t, (\<lambda>t'. put_child d f (rebuild t')), fld)))"

section \<open>Collaborators that are not in the sources\<close>

text \<open>\<^verbatim>\<open>Selector._compileSelector\<close> and the \<^verbatim>\<open>ObjectId\<close> constructor are parameters of the
  model: \<open>compileSelector E sel\<close> is the matcher of the selector \<open>sel\<close> (or the error the
  compiler raises), and \<open>newObjectId E n\<close> is the \<open>n\<close>-th identifier constructed, as its
  \<^verbatim>\<open>toString()\<close> and its \<^verbatim>\<open>generationTime\<close>.\<close>

record env =
  compileSelector :: "jsval \<Rightarrow> error + (jsval \<Rightarrow> bool)"
  newObjectId :: "nat \<Rightarrow> string \<times> int"

text \<open>Modelled from the spec: \<^verbatim>\<open>Selector._f._equal\<close> is missing from the sources; the
  specification calls it deep equality, which on values is equality.\<close>

definition equal_f :: "jsval \<Rightarrow> jsval \<Rightarrow> bool" where
  "equal_f a b = (a = b)"

text \<open>The elements \<^verbatim>\<open>_.forEach(values, ...)\<close> visits: of an array its elements, of a string
  its characters, of an object with a \<^verbatim>\<open>length\<close> the properties \<^verbatim>\<open>0 .. length - 1\<close>, of
  another object its property values, of anything else nothing.\<close>

fun forEach_items :: "jsval \<Rightarrow> jsval list" where
  "forEach_items (JArr xs) = xs"
| "forEach_items (JStr s) = map (\<lambda>c. JStr [c]) s"
| "forEach_items (JObj kvs) =
     (case obj_get kvs ''length'' of
        JNum n \<Rightarrow> if 0 \<le> n then map (\<lambda>i. obj_get kvs (show_nat i)) [0..<nat n] else map snd kvs
      | _ \<Rightarrow> map snd kvs)"
| "forEach_items v = []"

section \<open>Modifiers\<close>

text \<open>Each modifier of \<^verbatim>\<open>_modifiers\<close> takes the target, the field and the argument, and
  returns the target as the modifier leaves it.\<close>

definition mod_inc :: "jsval \<Rightarrow> keyfield \<Rightarrow> jsval \<Rightarrow> error + jsval" where
  "mod_inc target field arg =
     (case arg of
        JNum n \<Rightarrow>
          (case in_op field target of
             Inl e \<Rightarrow> Inl e
           | Inr True \<Rightarrow>
               (case prop_get target field of
                  Inl e \<Rightarrow> Inl e
                | Inr (JNum m) \<Rightarrow> prop_set target field (JNum (m + n))
                | Inr _ \<Rightarrow> Inl IncOfNonNumber)
           | Inr False \<Rightarrow> prop_set target field arg)
      | _ \<Rightarrow> Inl IncAllowedForNumbersOnly)"

definition mod_set :: "jsval \<Rightarrow> keyfield \<Rightarrow> jsval \<Rightarrow> error + jsval" where
  "mod_set target field arg = prop_set target field (cloneDeep arg)"

definition mod_unset :: "jsval \<Rightarrow> keyfield \<Rightarrow> jsval \<Rightarrow> error + jsval" where
  "mod_unset target field arg =
     (if target \<noteq> JUndefined then
        (case target of
           JArr xs \<Rightarrow>
             (case in_op field target of
                Inr True \<Rightarrow> prop_set target field JNull
              | _ \<Rightarrow> Inr target)
         | _ \<Rightarrow> prop_delete target field)
      else Inr target)"

definition mod_push :: "jsval \<Rightarrow> keyfield \<Rightarrow> jsval \<Rightarrow> error + jsval" where
  "mod_push target field arg =
     (case prop_get target field of
        Inl e \<Rightarrow> Inl e
      | Inr JUndefined \<Rightarrow> prop_set target field (JArr [arg])
      | Inr (JArr xs) \<Rightarrow> prop_set target field (JArr (xs @ [cloneDeep arg]))
      | Inr _ \<Rightarrow> Inl PushToNonArray)"

definition mod_pushAll :: "jsval \<Rightarrow> keyfield \<Rightarrow> jsval \<Rightarrow> error + jsval" where
  "mod_pushAll target field arg =
     (case arg of
        JArr args \<Rightarrow>
          (case prop_get target field of
             Inl e \<Rightarrow> Inl e
           | Inr JUndefined \<Rightarrow> prop_set target field arg
           | Inr (JArr xs) \<Rightarrow> prop_set target field (JArr (xs @ args))
           | Inr _ \<Rightarrow> Inl PushAllToNonArray)
      | _ \<Rightarrow> Inl PushAllPullAllArraysOnly)"

text \<open>The loop over \<^verbatim>\<open>arg\<close> in \<^verbatim>\<open>$addToSet\<close> looks at the first key only.\<close>

definition isEach :: "jsval \<Rightarrow> bool" where
  "isEach arg =
     (if typeof arg = ''object'' then
        (case for_in arg of [] \<Rightarrow> False | (k, v) # rest \<Rightarrow> k = ''$each'')
      else False)"

definition addToSet_value :: "jsval list \<Rightarrow> jsval \<Rightarrow> jsval list" where
  "addToSet_value x v = (if list_ex (\<lambda>e. equal_f v e) x then x else x @ [v])"

definition mod_addToSet :: "jsval \<Rightarrow> keyfield \<Rightarrow> jsval \<Rightarrow> error + jsval" where
  "mod_addToSet target field arg =
     (case prop_get target field of
        Inl e \<Rightarrow> Inl e
      | Inr JUndefined \<Rightarrow> prop_set target field (JArr [arg])
      | Inr (JArr x) \<Rightarrow>
          (case (if isEach arg then prop_get arg (FStr ''$each'') else Inr (JArr [arg])) of
             Inl e \<Rightarrow> Inl e
           | Inr vals \<Rightarrow> prop_set target field (JArr (foldl addToSet_value x (forEach_items vals))))
      | Inr _ \<Rightarrow> Inl AddToSetToNonArray)"

definition mod_pop :: "jsval \<Rightarrow> keyfield \<Rightarrow> jsval \<Rightarrow> error + jsval" where
  "mod_pop target field arg =
     (if target = JUndefined then Inr target
      else
        (case prop_get target field of
           Inl e \<Rightarrow> Inl e
         | Inr JUndefined \<Rightarrow> Inr target
         | Inr (JArr xs) \<Rightarrow>
             (case arg of
                JNum n \<Rightarrow> prop_set target field (JArr (if n < 0 then drop 1 xs else butlast xs))
              | _ \<Rightarrow> prop_set target field (JArr (butlast xs)))
         | Inr _ \<Rightarrow> Inl PopOfNonArray))"

definition mod_pull :: "env \<Rightarrow> jsval \<Rightarrow> keyfield \<Rightarrow> jsval \<Rightarrow> error + jsval" where
  "mod_pull E target field arg =
     (if target = JUndefined then Inr target
      else
        (case prop_get target field of
           Inl e \<Rightarrow> Inl e
         | Inr JUndefined \<Rightarrow> Inr target
         | Inr (JArr xs) \<Rightarrow>
             (if typeof arg = ''object'' \<and> \<not> isArray arg then
                (case compileSelector E arg of
                   Inl e \<Rightarrow> Inl e
                 | Inr match \<Rightarrow> prop_set target field (JArr (filter (\<lambda>e. \<not> match e) xs)))
              else prop_set target field (JArr (filter (\<lambda>e. \<not> equal_f e arg) xs)))
         | Inr _ \<Rightarrow> Inl PullOfNonArray))"

definition mod_pullAll :: "jsval \<Rightarrow> keyfield \<Rightarrow> jsval \<Rightarrow> error + jsval" where
  "mod_pullAll target field arg =
     (if target = JUndefined then Inr target
      else
        (case arg of
           JArr args \<Rightarrow>
             (case prop_get target field of
                Inl e \<Rightarrow> Inl e
              | Inr JUndefined \<Rightarrow> Inr target
              | Inr (JArr xs) \<Rightarrow>
                  prop_set target field (JArr (filter (\<lambda>e. \<not> list_ex (\<lambda>a. equal_f e a) args) xs))
              | Inr _ \<Rightarrow> Inl PullOfNonArray)
         | _ \<Rightarrow> Inl PushAllPullAllArraysOnly))"

text \<open>\<^verbatim>\<open>$rename\<close> also takes the key path and the whole document: \<open>rebuild\<close> gives the
  document from the target. It returns the document.\<close>

definition mod_rename ::
  "jsval \<Rightarrow> keyfield \<Rightarrow> jsval \<Rightarrow> string \<Rightarrow> (jsval \<Rightarrow> jsval) \<Rightarrow> error + jsval" where
  "mod_rename target field arg keypath rebuild =
     (if target = JUndefined then Inr (rebuild target)
      else if arg = JStr keypath then Inl RenameSourceMustDiffer
      else if target = JNull then Inl RenameSourceInvalid
      else
        (case arg of
           JStr name \<Rightarrow>
             (case prop_get target field of
                Inl e \<Rightarrow> Inl e
              | Inr v \<Rightarrow>
                  (case prop_delete target field of
                     Inl e \<Rightarrow> Inl e
                   | Inr target' \<Rightarrow>
                       (case findModTarget (rebuild target') (split_dot name) False True of
                          Inl e \<Rightarrow> Inl e
                        | Inr (target2, rebuild2, field2) \<Rightarrow>
                            if target2 = JNull then Inl RenameTargetInvalid
                            else
                              (case prop_set target2 field2 v of
                                 Inl e \<Rightarrow> Inl e
                               | Inr t2 \<Rightarrow> Inr (rebuild2 t2)))))
         | _ \<Rightarrow> Inl RenameTargetMustBeString))"

definition mod_bit :: "jsval \<Rightarrow> keyfield \<Rightarrow> jsval \<Rightarrow> error + jsval" where
  "mod_bit target field arg = Inl BitNotSupported"

definition noCreateModifiers :: "string list" where
  "noCreateModifiers = [''$unset'', ''$pop'', ''$rename'', ''$pull'', ''$pullAll'']"

text \<open>\<^verbatim>\<open>_modifiers[key]\<close>: the modifier of that name applied to a target of a document, giving
  the document afterwards; \<open>None\<close> when the table has no such name.\<close>

definition modifiers ::
  "env \<Rightarrow> string \<Rightarrow>
     (jsval \<Rightarrow> keyfield \<Rightarrow> jsval \<Rightarrow> string \<Rightarrow> (jsval \<Rightarrow> jsval) \<Rightarrow> error + jsval) option" where
  "modifiers E key =
     (let on_target = (\<lambda>m. Some (\<lambda>target field arg keypath rebuild.
            (case m target field arg of Inl e \<Rightarrow> Inl e | Inr t \<Rightarrow> Inr (rebuild t))))
      in if key = ''$inc'' then on_target mod_inc
         else if key = ''$set'' then on_target mod_set
         else if key = ''$unset'' then on_target mod_unset
         else if key = ''$push'' then on_target mod_push
         else if key = ''$pushAll'' then on_target mod_pushAll
         else if key = ''$addToSet'' then on_target mod_addToSet
         else if key = ''$pop'' then on_target mod_pop
         else if key = ''$pull'' then on_target (mod_pull E)
         else if key = ''$pullAll'' then on_target mod_pullAll
         else if key = ''$rename'' then Some mod_rename
         else if key = ''$bit'' then on_target mod_bit
         else None)"

text \<open>The loop of \<^verbatim>\<open>_applyModifier\<close> over the key paths of \<^verbatim>\<open>val\<close>.\<close>

fun applyModifier_paths ::
  "(jsval \<Rightarrow> keyfield \<Rightarrow> jsval \<Rightarrow> string \<Rightarrow> (jsval \<Rightarrow> jsval) \<Rightarrow> error + jsval) \<Rightarrow>
     string \<Rightarrow> jsval \<Rightarrow> (string \<times> jsval) list \<Rightarrow> error + jsval" where
  "applyModifier_paths m key docUpdate [] = Inr docUpdate"
| "applyModifier_paths m key docUpdate ((keypath, arg) # rest) =
     (let keyparts = split_dot keypath;
          no_create = (key \<in> set noCreateModifiers);
          forbid_array = (key = ''$rename'')
      in case findModTarget docUpdate keyparts no_create forbid_array of
           Inl e \<Rightarrow> Inl e
         | Inr (target, rebuild, field) \<Rightarrow>
             (case m target field arg keypath rebuild of
                Inl e \<Rightarrow> Inl e
              | Inr docUpdate' \<Rightarrow> applyModifier_paths m key docUpdate' rest))"

definition applyModifier :: "env \<Rightarrow> jsval \<Rightarrow> string \<Rightarrow> jsval \<Rightarrow> error + jsval" where
  "applyModifier E docUpdate key val =
     (case modifiers E key of
        None \<Rightarrow> Inl (InvalidModifier key)
      | Some m \<Rightarrow> applyModifier_paths m key docUpdate (for_in val))"


section \<open>The collection\<close>

text \<open>An observer store is known by the events it has a function for and by whether it
  has the catch-all \<^verbatim>\<open>all\<close>. What the stores do with an event is outside the program;
  the model records each call of a store's function, with the event's name, the
  documents it carries and the documents the collection holds at that moment.\<close>

record store =
  handles :: "string list"
  has_all :: bool

record event =
  ev_name :: string
  ev_docs :: "jsval list"
  ev_collection :: "jsval list"

record delivery =
  to_store :: nat
  by_all :: bool
  what :: event

text \<open>\<open>oids\<close> counts the identifiers constructed so far. Callbacks and \<^verbatim>\<open>options.chain\<close>
  are left out.\<close>

record collection =
  docs :: "jsval list"
  doc_indexes :: "(string \<times> nat) list"
  stores :: "store list"
  delivered :: "delivery list"
  oids :: nat

text \<open>\<^verbatim>\<open>MongoPortable.prototype._emit\<close>\<close>

definition deliver :: "event \<Rightarrow> nat \<times> store \<Rightarrow> delivery list" where
  "deliver e p =
     (case p of (i, st) \<Rightarrow>
        if ev_name e \<in> set (handles st) then [\<lparr>to_store = i, by_all = False, what = e\<rparr>]
        else if has_all st then [\<lparr>to_store = i, by_all = True, what = e\<rparr>]
        else [])"

text \<open>The calls \<^verbatim>\<open>_.forEach(self._stores, ...)\<close> makes for one event.\<close>

definition deliveries :: "store list \<Rightarrow> event \<Rightarrow> delivery list" where
  "deliveries sts e = concat (map (deliver e) (enumerate 0 sts))"

definition emit :: "collection \<Rightarrow> string \<Rightarrow> jsval list \<Rightarrow> collection" where
  "emit s name payload =
     s\<lparr>delivered := delivered s @
          deliveries (stores s) \<lparr>ev_name = name, ev_docs = payload, ev_collection = docs s\<rparr>\<rparr>"

subsection \<open>Property keys\<close>

fun join_comma :: "string list \<Rightarrow> string" where
  "join_comma [] = []"
| "join_comma [s] = s"
| "join_comma (s # t # ts) = s @ CHR '','' # join_comma (t # ts)"

text \<open>The string a value becomes when it is used as a property name, as in
  \<^verbatim>\<open>this.doc_indexes[doc._id]\<close>.\<close>

fun toPropertyKey :: "jsval \<Rightarrow> string" where
  "toPropertyKey JUndefined = ''undefined''"
| "toPropertyKey JNull = ''null''"
| "toPropertyKey (JBool b) = (if b then ''true'' else ''false'')"
| "toPropertyKey (JNum n) = show_int n"
| "toPropertyKey (JStr s) = s"
| "toPropertyKey (JOid h) = h"
| "toPropertyKey (JArr xs) = join_comma (map (\<lambda>x. if isNil x then [] else toPropertyKey x) xs)"
| "toPropertyKey (JObj kvs) = ''[object Object]''"

subsection \<open>insert\<close>

text \<open>\<^verbatim>\<open>(_doc._id || '').replace(/\D/g, '')\<close> after a number has become a string: a value
  that is neither false nor a string has no \<^verbatim>\<open>replace\<close>.\<close>

fun strip_id :: "jsval \<Rightarrow> error + string" where
  "strip_id JUndefined = Inr []"
| "strip_id JNull = Inr []"
| "strip_id (JBool b) = (if b then Inl TypeError else Inr [])"
| "strip_id (JNum n) = (if n = 0 then Inr [] else Inl TypeError)"
| "strip_id (JStr s) = Inr (filter (\<lambda>c. is_digit c) s)"
| "strip_id v = Inl TypeError"

definition number_to_string :: "jsval \<Rightarrow> jsval" where
  "number_to_string v = (case v of JNum n \<Rightarrow> JStr (show_int n) | _ \<Rightarrow> v)"

definition coll_insert :: "env \<Rightarrow> collection \<Rightarrow> jsval \<Rightarrow> (error + jsval) \<times> collection" where
  "coll_insert E s doc =
     (if isNil doc then (Inl DocParameterRequired, s)
      else
        (case cloneDeep doc of
           JObj kvs \<Rightarrow>
             (case strip_id (number_to_string (obj_get kvs ''_id'')) of
                Inl e \<Rightarrow> (Inl e, s)
              | Inr digits \<Rightarrow>
                  let fresh = (digits = []);
                      idv = (if fresh then JOid (fst (newObjectId E (oids s))) else JStr digits);
                      n = (if fresh then Suc (oids s) else oids s);
                      stamp = JNum (snd (newObjectId E n));
                      stored = JObj (AList.update ''timestamp'' stamp (AList.update ''_id'' idv kvs));
                      s' = s\<lparr>doc_indexes := AList.update (toPropertyKey idv) (length (docs s)) (doc_indexes s),
                              docs := docs s @ [stored],
                              oids := Suc n\<rparr>
                  in (Inr stored, emit s' ''insert'' [stored]))
         | _ \<Rightarrow> (Inl DocMustBeAnObject, s)))"

subsection \<open>find and findOne\<close>

text \<open>Modelled from the spec: the cursor (\<^verbatim>\<open>Cursor.js\<close> is not in the sources). It yields,
  in the order of \<^verbatim>\<open>docs\<close>, the documents the matcher accepts, after \<open>skip\<close> of them
  and at most \<open>limit\<close> of them, a limit of zero or less meaning no limit; with no field
  specification the projection is the identity.\<close>

definition cursor_docs :: "(jsval \<Rightarrow> bool) \<Rightarrow> nat \<Rightarrow> int \<Rightarrow> jsval list \<Rightarrow> jsval list" where
  "cursor_docs match skip limit ds =
     (let ms = drop skip (filter match ds)
      in if limit \<le> 0 then ms else take (nat limit) ms)"

definition selection_of :: "jsval \<Rightarrow> jsval" where
  "selection_of selection =
     (if isNil selection then JObj []
      else (case selection of JOid h \<Rightarrow> JObj [(''_id'', selection)] | _ \<Rightarrow> selection))"

text \<open>\<^verbatim>\<open>find(selection, null, options)\<close> with its cursor fetched or walked at once; \<open>limit\<close>
  is 15 when the caller passes no options and absent (here 0) when it passes options
  without one.\<close>

definition coll_find :: "env \<Rightarrow> collection \<Rightarrow> jsval \<Rightarrow> int \<Rightarrow> (error + jsval list) \<times> collection" where
  "coll_find E s selection limit =
     (case compileSelector E (selection_of selection) of
        Inl e \<Rightarrow> (Inl e, s)
      | Inr match \<Rightarrow> (Inr (cursor_docs match 0 limit (docs s)), emit s ''find'' []))"

text \<open>\<^verbatim>\<open>findOne(selection)\<close>: the first document of the cursor, or \<^verbatim>\<open>null\<close>.\<close>

definition coll_findOne :: "env \<Rightarrow> collection \<Rightarrow> jsval \<Rightarrow> (error + jsval) \<times> collection" where
  "coll_findOne E s selection =
     (case compileSelector E (selection_of selection) of
        Inl e \<Rightarrow> (Inl e, s)
      | Inr match \<Rightarrow>
          ((case cursor_docs match 0 15 (docs s) of [] \<Rightarrow> Inr JNull | d # ds \<Rightarrow> Inr d),
           emit s ''findOne'' []))"



subsection \<open>update\<close>

record update_options =
  multi :: bool
  upsert :: bool
  updateAsMongo :: bool
  override :: bool

record update_result =
  updated_documents :: "jsval list option"
  updated_count :: nat
  inserted_documents :: "jsval option"
  inserted_count :: nat

text \<open>\<^verbatim>\<open>key.substr(0, 1) === '$'\<close>\<close>

definition is_modifier_key :: "string \<Rightarrow> bool" where
  "is_modifier_key key = (take 1 key = ''$'')"

text \<open>The first loop over the keys of \<^verbatim>\<open>update\<close>, which sets \<^verbatim>\<open>hasModifier\<close> and
  \<^verbatim>\<open>override\<close> (\<open>None\<close> is \<^verbatim>\<open>null\<close>) or raises.\<close>

fun scan_keys :: "update_options \<Rightarrow> string list \<Rightarrow> bool \<Rightarrow> bool option \<Rightarrow> error + bool option" where
  "scan_keys opts [] hasModifier ov = Inr ov"
| "scan_keys opts (key # keys) hasModifier ov =
     (let modifier = is_modifier_key key;
          hasModifier' = (hasModifier \<or> modifier)
      in if updateAsMongo opts then
           (if hasModifier' \<and> \<not> modifier then Inl AllUpdateFieldsMustBeOperators
            else if \<not> hasModifier' \<and> multi opts then Inl CannotUpdateSeveralDocuments
            else scan_keys opts keys hasModifier' (Some (\<not> hasModifier')))
         else scan_keys opts keys hasModifier' (Some (override opts)))"

text \<open>The branch \<^verbatim>\<open>if (override)\<close>: the copy of \<^verbatim>\<open>update\<close> loses every key that neither
  begins with \<^verbatim>\<open>$\<close> nor contains a dot, and gets the \<^verbatim>\<open>_id\<close> of the document.\<close>

definition override_step :: "(string \<times> jsval) list \<Rightarrow> string \<Rightarrow> (string \<times> jsval) list" where
  "override_step docUpdate key =
     (if is_modifier_key key \<or> CHR ''.'' \<in> set key then docUpdate
      else AList.delete key docUpdate)"

definition override_doc :: "(string \<times> jsval) list \<Rightarrow> jsval \<Rightarrow> error + jsval" where
  "override_doc upd doc =
     (case prop_get doc (FStr ''_id'') of
        Inl e \<Rightarrow> Inl e
      | Inr idv \<Rightarrow> Inr (JObj (AList.update ''_id'' idv (foldl override_step upd (map fst upd)))))"

text \<open>The other branch: the loop over \<^verbatim>\<open>update\<close> on the copy of the document.\<close>

fun modify_fields :: "env \<Rightarrow> jsval \<Rightarrow> (string \<times> jsval) list \<Rightarrow> error + jsval" where
  "modify_fields E docUpdate [] = Inr docUpdate"
| "modify_fields E docUpdate ((key, val) # rest) =
     (if is_modifier_key key then
        (case applyModifier E docUpdate key val of
           Inl e \<Rightarrow> Inl e
         | Inr d \<Rightarrow> modify_fields E d rest)
      else
        (case prop_get docUpdate (FStr key) of
           Inl e \<Rightarrow> Inl e
         | Inr cur \<Rightarrow>
             if \<not> isNil cur \<and> key \<noteq> ''_id'' then
               (case prop_set docUpdate (FStr key) val of
                  Inl e \<Rightarrow> Inl e
                | Inr d \<Rightarrow> modify_fields E d rest)
             else modify_fields E docUpdate rest))"

text \<open>\<^verbatim>\<open>_docUpdate\<close> for one document of the loop of \<^verbatim>\<open>update\<close>.\<close>

definition update_doc :: "env \<Rightarrow> (string \<times> jsval) list \<Rightarrow> update_options \<Rightarrow> jsval \<Rightarrow> error + jsval" where
  "update_doc E upd opts doc =
     (case scan_keys opts (map fst upd) False None of
        Inl e \<Rightarrow> Inl e
      | Inr ov \<Rightarrow>
          if ov = Some True then override_doc upd doc
          else modify_fields E (cloneDeep doc) upd)"

text \<open>\<^verbatim>\<open>this.docs[idx] = _docUpdate\<close> with \<^verbatim>\<open>idx = this.doc_indexes[_docUpdate._id]\<close>: when the
  index has no such key, \<^verbatim>\<open>idx\<close> is \<^verbatim>\<open>undefined\<close> and no element is written.\<close>

definition store_doc :: "collection \<Rightarrow> jsval \<Rightarrow> error + collection" where
  "store_doc s docUpdate =
     (case prop_get docUpdate (FStr ''_id'') of
        Inl e \<Rightarrow> Inl e
      | Inr idv \<Rightarrow>
          (case map_of (doc_indexes s) (toPropertyKey idv) of
             None \<Rightarrow> Inr s
           | Some idx \<Rightarrow> Inr (s\<lparr>docs := arr_set (docs s) idx docUpdate\<rparr>)))"

text \<open>The loop over the documents found. An exception leaves the collection as the
  passes before it left it.\<close>

fun update_loop ::
  "env \<Rightarrow> collection \<Rightarrow> (string \<times> jsval) list \<Rightarrow> update_options \<Rightarrow> jsval list \<Rightarrow>
     (error + jsval list) \<times> collection" where
  "update_loop E s upd opts [] = (Inr [], s)"
| "update_loop E s upd opts (doc # rest) =
     (case update_doc E upd opts doc of
        Inl e \<Rightarrow> (Inl e, s)
      | Inr docUpdate \<Rightarrow>
          (case store_doc s docUpdate of
             Inl e \<Rightarrow> (Inl e, s)
           | Inr s' \<Rightarrow>
               (case update_loop E s' upd opts rest of
                  (Inl e, s'') \<Rightarrow> (Inl e, s'')
                | (Inr updatedDocs, s'') \<Rightarrow> (Inr (docUpdate # updatedDocs), s''))))"

text \<open>The documents \<^verbatim>\<open>update\<close> works on: all that match when \<^verbatim>\<open>multi\<close> is set, else the first.\<close>

definition update_targets ::
  "env \<Rightarrow> collection \<Rightarrow> jsval \<Rightarrow> update_options \<Rightarrow> (error + jsval list) \<times> collection" where
  "update_targets E s selection opts =
     (if multi opts then coll_find E s selection 0
      else
        (case coll_findOne E s selection of
           (Inl e, s') \<Rightarrow> (Inl e, s')
         | (Inr d, s') \<Rightarrow> (Inr (if isNil d then [] else [d]), s')))"

text \<open>\<^verbatim>\<open>Collection.prototype.update\<close>, for an update document that is an object with the
  properties \<open>upd\<close>.\<close>

definition coll_update ::
  "env \<Rightarrow> collection \<Rightarrow> jsval \<Rightarrow> (string \<times> jsval) list \<Rightarrow> update_options \<Rightarrow>
     (error + update_result) \<times> collection" where
  "coll_update E s selection upd opts =
     (case update_targets E s selection opts of
        (Inl e, s1) \<Rightarrow> (Inl e, s1)
      | (Inr found, s1) \<Rightarrow>
          if found = [] then
            (if upsert opts then
               (case coll_insert E s1 (JObj upd) of
                  (Inl e, s2) \<Rightarrow> (Inl e, s2)
                | (Inr inserted, s2) \<Rightarrow>
                    (Inr \<lparr>updated_documents = None, updated_count = 0,
                          inserted_documents = Some inserted, inserted_count = 1\<rparr>, s2))
             else
               (Inr \<lparr>updated_documents = None, updated_count = 0,
                     inserted_documents = None, inserted_count = 0\<rparr>, s1))
          else
            (case update_loop E s1 upd opts found of
               (Inl e, s2) \<Rightarrow> (Inl e, s2)
             | (Inr updatedDocs, s2) \<Rightarrow>
                 (Inr \<lparr>updated_documents = Some updatedDocs, updated_count = length updatedDocs,
                       inserted_documents = None, inserted_count = 0\<rparr>,
                  emit s2 ''update'' updatedDocs)))"

subsection \<open>remove\<close>

text \<open>\<^verbatim>\<open>this.docs.splice(idx, 1)\<close>; an \<^verbatim>\<open>idx\<close> of \<^verbatim>\<open>undefined\<close> counts as 0.\<close>

definition splice1 :: "jsval list \<Rightarrow> nat \<Rightarrow> jsval list" where
  "splice1 xs idx = take idx xs @ drop (Suc idx) xs"

definition remove_doc :: "collection \<Rightarrow> jsval \<Rightarrow> error + collection" where
  "remove_doc s doc =
     (case prop_get doc (FStr ''_id'') of
        Inl e \<Rightarrow> Inl e
      | Inr idv \<Rightarrow>
          let idx = (case map_of (doc_indexes s) (toPropertyKey idv) of None \<Rightarrow> 0 | Some i \<Rightarrow> i)
          in Inr (s\<lparr>doc_indexes := AList.delete (toPropertyKey idv) (doc_indexes s),
                    docs := splice1 (docs s) idx\<rparr>))"

fun remove_loop :: "collection \<Rightarrow> jsval list \<Rightarrow> (error + jsval list) \<times> collection" where
  "remove_loop s [] = (Inr [], s)"
| "remove_loop s (doc # rest) =
     (case remove_doc s doc of
        Inl e \<Rightarrow> (Inl e, s)
      | Inr s' \<Rightarrow>
          (case remove_loop s' rest of
             (Inl e, s'') \<Rightarrow> (Inl e, s'')
           | (Inr removed, s'') \<Rightarrow> (Inr (doc # removed), s'')))"

text \<open>\<^verbatim>\<open>Collection.prototype.remove\<close>: \<^verbatim>\<open>this.find(selection)\<close> passes no options, so the
  cursor has the limit 15.\<close>

definition coll_remove :: "env \<Rightarrow> collection \<Rightarrow> jsval \<Rightarrow> (error + jsval list) \<times> collection" where
  "coll_remove E s selection =
     (case coll_find E s selection 15 of
        (Inl e, s1) \<Rightarrow> (Inl e, s1)
      | (Inr found, s1) \<Rightarrow>
          (case remove_loop s1 found of
             (Inl e, s2) \<Rightarrow> (Inl e, s2)
           | (Inr removed, s2) \<Rightarrow> (Inr removed, emit s2 ''remove'' removed)))"

section \<open>A concrete environment\<close>

text \<open>Modelled from the spec: the selector compiler for a predicate document whose
  clauses compare a top-level field with a literal (\<^verbatim>\<open>Selector.js\<close> is not in the
  sources). A clause matches when the field deep-equals the literal or is an array with
  an element that does; the document must satisfy every clause. Any other selector is
  refused here.\<close>

definition literal_clause :: "string \<times> jsval \<Rightarrow> bool" where
  "literal_clause c = (case c of (k, v) \<Rightarrow> \<not> is_modifier_key k \<and> typeof v \<noteq> ''object'')"

definition clause_matches :: "jsval \<Rightarrow> string \<times> jsval \<Rightarrow> bool" where
  "clause_matches d c =
     (case c of (k, v) \<Rightarrow>
        (case prop_get d (FStr k) of
           Inl e \<Rightarrow> False
         | Inr (JArr xs) \<Rightarrow> list_ex (\<lambda>x. equal_f x v) xs
         | Inr x \<Rightarrow> equal_f x v))"

definition literal_selector :: "jsval \<Rightarrow> error + (jsval \<Rightarrow> bool)" where
  "literal_selector sel =
     (case sel of
        JObj clauses \<Rightarrow>
          if list_all literal_clause clauses then Inr (\<lambda>d. list_all (clause_matches d) clauses)
          else Inl (SelectorError ''unsupported'')
      | _ \<Rightarrow> Inl (SelectorError ''unsupported''))"

definition env0 :: env where
  "env0 = \<lparr>compileSelector = literal_selector,
           newObjectId = (\<lambda>n. (''5f0000000000000000000'' @ show_nat (100 + n), 1600000000 + int n))\<rparr>"

definition empty_collection :: collection where
  "empty_collection = \<lparr>docs = [], doc_indexes = [], stores = [], delivered = [], oids = 0\<rparr>"



section \<open>The id index and example collections\<close>

definition doc_id :: "jsval \<Rightarrow> jsval" where
  "doc_id d = (case prop_get d (FStr ''_id'') of Inl e \<Rightarrow> JUndefined | Inr v \<Rightarrow> v)"

text \<open>\<^verbatim>\<open>docs[doc_indexes[d._id]] === d\<close> for every stored \<open>d\<close>: identity of stored documents
  is their position, so the index must send the \<^verbatim>\<open>_id\<close> at each position to that position.\<close>

definition index_invariant :: "collection \<Rightarrow> bool" where
  "index_invariant s =
     list_all (\<lambda>i. map_of (doc_indexes s) (toPropertyKey (doc_id (docs s ! i))) = Some i)
              [0..<length (docs s)]"

definition one_doc :: collection where
  "one_doc = snd (coll_insert env0 empty_collection (JObj [(''_id'', JNum 1), (''a'', JNum 1)]))"

definition two_docs :: collection where
  "two_docs = snd (coll_insert env0 one_doc (JObj [(''_id'', JNum 2), (''a'', JStr ''x'')]))"

definition strict :: update_options where
  "strict = \<lparr>multi = False, upsert = False, updateAsMongo = True, override = False\<rparr>"


text \<open>The digits of a provided \<^verbatim>\<open>_id\<close> as the specification describes them: a number is
  written out, a string is taken as it is, and every character that is not a digit is
  dropped; anything else provides none.\<close>

definition id_digits :: "jsval \<Rightarrow> string" where
  "id_digits v =
     (case v of
        JNum n \<Rightarrow> filter is_digit (show_int n)
      | JStr t \<Rightarrow> filter is_digit t
      | _ \<Rightarrow> [])"


definition upserting :: update_options where
  "upserting = \<lparr>multi = False, upsert = True, updateAsMongo = True, override = False\<rparr>"




text \<open>A modifier that works on the target alone, run at a key path: path resolution with
  neither policy bit set, then the modifier, then the document.\<close>

definition modify_path ::
  "(jsval \<Rightarrow> keyfield \<Rightarrow> error + jsval) \<Rightarrow> jsval \<Rightarrow> string list \<Rightarrow> error + jsval" where
  "modify_path m doc keyparts =
     (case findModTarget doc keyparts False False of
        Inl e \<Rightarrow> Inl e
      | Inr (target, rebuild, field) \<Rightarrow>
          (case m target field of Inl e \<Rightarrow> Inl e | Inr t \<Rightarrow> Inr (rebuild t)))"

text \<open>A modifier settles when, run again on the target it has produced, it produces the same
  target, and when it keeps the kind of the target and does not shorten an array below the
  index it was given.\<close>

definition settles :: "(jsval \<Rightarrow> keyfield \<Rightarrow> error + jsval) \<Rightarrow> bool" where
  "settles m =
     (\<forall>t f t'. m t f = Inr t' \<longrightarrow>
        m t' f = Inr t' \<and> typeof t' = typeof t \<and> isArray t' = isArray t \<and>
        (\<forall>xs n. t = JArr xs \<and> f = FNum n \<and> n \<le> length xs \<longrightarrow> (\<exists>xs'. t' = JArr xs' \<and> n \<le> length xs')))"

section \<open>Results\<close>

subsection \<open>Basic facts\<close>

lemma docs_emit [simp]: "docs (emit s name p) = docs s"
  and doc_indexes_emit [simp]: "doc_indexes (emit s name p) = doc_indexes s"
  and stores_emit [simp]: "stores (emit s name p) = stores s"
  and oids_emit [simp]: "oids (emit s name p) = oids s"
  by (simp_all add: emit_def)

lemma delivered_emit:
  "delivered (emit s name p) =
     delivered s @ deliveries (stores s) \<lparr>ev_name = name, ev_docs = p, ev_collection = docs s\<rparr>"
  by (simp add: emit_def)

lemma obj_get_update: "obj_get (AList.update k v kvs) k' = (if k' = k then v else obj_get kvs k')"
  by (simp add: obj_get_def update_conv')

lemma strip_id_digits: "strip_id (number_to_string v) = Inr ds \<Longrightarrow> ds = id_digits v"
  by (cases v) (auto simp: number_to_string_def id_digits_def split: if_splits)

lemma insert_stored:
  assumes "coll_insert E s doc = (Inr stored, s')"
  shows "\<exists>kvs. doc = JObj kvs \<and>
           stored = JObj (AList.update ''timestamp''
                      (JNum (snd (newObjectId E (if id_digits (obj_get kvs ''_id'') = [] then Suc (oids s) else oids s))))
                      (AList.update ''_id''
                         (if id_digits (obj_get kvs ''_id'') = [] then JOid (fst (newObjectId E (oids s)))
                          else JStr (id_digits (obj_get kvs ''_id''))) kvs)) \<and>
           docs s' = docs s @ [stored] \<and> stores s' = stores s \<and>
           delivered s' = delivered s @
             deliveries (stores s) \<lparr>ev_name = ''insert'', ev_docs = [stored], ev_collection = docs s'\<rparr>"
  using assms
  by (cases doc)
     (auto simp: coll_insert_def cloneDeep_def Let_def delivered_emit
           dest!: strip_id_digits split: sum.splits if_splits)


lemma cursor_docs_no_match: "filter match ds = [] \<Longrightarrow> cursor_docs match skip limit ds = []"
  by (simp add: cursor_docs_def Let_def)

lemma update_targets_no_match:
  assumes "compileSelector E (selection_of sel) = Inr match" and "filter match (docs s) = []"
  shows "update_targets E s sel opts =
           (Inr [], emit s (if multi opts then ''find'' else ''findOne'') [])"
  using assms
  by (simp add: update_targets_def coll_find_def coll_findOne_def cursor_docs_no_match)

lemma one_doc_eq:
  "one_doc =
     \<lparr>docs = [JObj [(''_id'', JStr ''1''), (''a'', JNum 1), (''timestamp'', JNum 1600000000)]],
      doc_indexes = [(''1'', 0)], stores = [], delivered = [], oids = 1\<rparr>"
  by code_simp

lemma two_docs_eq:
  "two_docs =
     \<lparr>docs = [JObj [(''_id'', JStr ''1''), (''a'', JNum 1), (''timestamp'', JNum 1600000000)],
              JObj [(''_id'', JStr ''2''), (''a'', JStr ''x''), (''timestamp'', JNum 1600000001)]],
      doc_indexes = [(''1'', 0), (''2'', 1)], stores = [], delivered = [], oids = 2\<rparr>"
  by code_simp

lemma alist_update_absent: "map_of kvs k = None \<Longrightarrow> AList.update k v kvs = kvs @ [(k, v)]"
  by (induction kvs) (auto split: if_splits)















subsection \<open>Running a modifier twice\<close>

lemma applyModifier_set:
  "applyModifier E doc ''$set'' (JObj [(k, v)]) = modify_path (\<lambda>t f. mod_set t f v) doc (split_dot k)"
  by (auto simp: applyModifier_def modifiers_def noCreateModifiers_def modify_path_def Let_def
           split: sum.splits prod.splits)

lemma applyModifier_addToSet:
  "applyModifier E doc ''$addToSet'' (JObj [(k, v)]) =
     modify_path (\<lambda>t f. mod_addToSet t f v) doc (split_dot k)"
  by (auto simp: applyModifier_def modifiers_def noCreateModifiers_def modify_path_def Let_def
           split: sum.splits prod.splits)

lemma modify_path_last:
  "modify_path m doc [k] =
     (case step doc k [] True False False of
        Throw e \<Rightarrow> Inl e
      | ReturnNode d f \<Rightarrow> m d f
      | ReturnUndefined \<Rightarrow> (case m JUndefined (FStr k) of Inl e \<Rightarrow> Inl e | Inr t \<Rightarrow> Inr doc)
      | ReturnNull \<Rightarrow> (case m JNull (FStr k) of Inl e \<Rightarrow> Inl e | Inr t \<Rightarrow> Inr doc)
      | Descend d f c \<Rightarrow> (case m JUndefined (FStr ''undefined'') of Inl e \<Rightarrow> Inl e | Inr t \<Rightarrow> Inr (put_child d f c)))"
  by (auto simp: modify_path_def split: step_result.splits sum.splits)

lemma step_inner:
  "step doc k nxt False False False = ReturnUndefined \<Longrightarrow> False"
  "step doc k nxt False False False = ReturnNull \<Longrightarrow> False"
  "step doc k nxt False False False \<noteq> ReturnNode d f"
  by (auto simp: step_def array_step_def object_step_def Let_def split: jsval.splits sum.splits if_splits)

lemma modify_path_inner:
  "modify_path m doc (k # k2 # rest) =
     (case step doc k k2 False False False of
        Throw e \<Rightarrow> Inl e
      | Descend d f c \<Rightarrow>
          (case modify_path m c (k2 # rest) of Inl e \<Rightarrow> Inl e | Inr c' \<Rightarrow> Inr (put_child d f c'))
      | _ \<Rightarrow> Inl TypeError)"
  using step_inner[of doc k k2]
  by (auto simp: modify_path_def split: step_result.splits sum.splits prod.splits)

lemma step_last_array:
  "step (JArr xs) k [] True False False =
     (if numeric k then ReturnNode (JArr (pad_null xs (toNumber k))) (FNum (toNumber k))
      else Throw (CantAppendToArray k))"
  by (simp add: step_def array_step_def Let_def)

lemma step_last_other:
  "\<not> isArray doc \<Longrightarrow> step doc k [] True False False = ReturnNode doc (FStr k)"
  by (cases doc) (simp_all add: step_def object_step_def)

lemma step_inner_array:
  "step (JArr xs) k k2 False False False =
     (if \<not> numeric k then Throw (CantAppendToArray k)
      else if length xs \<le> toNumber k
        then Descend (JArr (pad_null xs (toNumber k) @ [JObj []])) (FNum (toNumber k)) (JObj [])
      else if typeof (xs ! toNumber k) \<noteq> ''object'' then Throw (CantModifyFieldOfListValue k2)
      else Descend (JArr xs) (FNum (toNumber k)) (xs ! toNumber k))"
  by (auto simp: step_def array_step_def pad_null_def Let_def)

lemma step_inner_object:
  "step (JObj kvs) k k2 False False False =
     (if has_key k kvs then Descend (JObj kvs) (FStr k) (obj_get kvs k)
      else Descend (JObj (AList.update k (JObj []) kvs)) (FStr k) (JObj []))"
  by (simp add: step_def object_step_def field_key_def)

lemma step_inner_oid:
  "step (JOid h) k k2 False False False = Descend (JOid h) (FStr k) (JObj [])"
  by (simp add: step_def object_step_def)

lemma step_inner_primitive:
  "typeof doc \<noteq> ''object'' \<or> doc = JNull \<Longrightarrow> step doc k k2 False False False = Throw TypeError"
  by (cases doc) (auto simp: step_def object_step_def)

lemma pad_null_long: "k \<le> length xs \<Longrightarrow> pad_null xs k = xs"
  by (simp add: pad_null_def)

lemma length_pad_null: "length (pad_null xs k) = max (length xs) k"
  by (simp add: pad_null_def)

lemma length_arr_set: "length (arr_set xs i v) = max (length xs) (Suc i)"
  by (auto simp: arr_set_def)

lemma arr_set_twice: "arr_set (arr_set xs i v) i v = arr_set xs i v"
  by (auto simp: arr_set_def list_update_append)

lemma arr_set_nth: "arr_set xs i v ! i = v"
  by (auto simp: arr_set_def nth_append)

lemma arr_set_same: "i < length xs \<Longrightarrow> xs ! i = v \<Longrightarrow> arr_set xs i v = xs"
  by (auto simp: arr_set_def)

lemma update_twice: "AList.update k v (AList.update k v kvs) = AList.update k v kvs"
  by (induction kvs) auto

lemma has_key_update: "has_key k (AList.update k v kvs)"
  by (simp add: has_key_def update_conv')

lemma modify_path_typeof:
  assumes m: "settles m"
  shows "modify_path m doc (k # rest) = Inr doc' \<Longrightarrow> typeof doc' = typeof doc"
proof (cases rest)
  case Nil
  assume a: "modify_path m doc (k # rest) = Inr doc'"
  show ?thesis
  proof (cases "isArray doc")
    case True
    then obtain xs where "doc = JArr xs" by (cases doc) auto
    with a Nil m show ?thesis
      by (auto simp: modify_path_last step_last_array settles_def split: if_splits)
  next
    case False
    with a Nil m show ?thesis
      by (auto simp: modify_path_last step_last_other settles_def)
  qed
next
  case (Cons k2 rest')
  assume a: "modify_path m doc (k # rest) = Inr doc'"
  then show ?thesis
    unfolding Cons modify_path_inner
    by (cases doc)
       (auto simp: step_inner_array step_inner_object step_inner_oid step_inner_primitive
                   field_index_def
             split: if_splits sum.splits)
qed

lemma modify_path_twice:
  assumes m: "settles m"
  shows "modify_path m doc (k # rest) = Inr doc' \<Longrightarrow> modify_path m doc' (k # rest) = Inr doc'"
proof (induction rest arbitrary: doc doc' k)
  case Nil
  show ?case
  proof (cases "isArray doc")
    case True
    then obtain xs where d: "doc = JArr xs" by (cases doc) auto
    with Nil have n: "numeric k" and
      r: "m (JArr (pad_null xs (toNumber k))) (FNum (toNumber k)) = Inr doc'"
      by (auto simp: modify_path_last step_last_array split: if_splits)
    from m r obtain xs' where x: "doc' = JArr xs'" "toNumber k \<le> length xs'"
      unfolding settles_def using length_pad_null[of xs "toNumber k"]
      by (metis max.cobounded2)
    from m r have "m doc' (FNum (toNumber k)) = Inr doc'"
      unfolding settles_def by blast
    with x n show ?thesis
      by (simp add: modify_path_last step_last_array pad_null_long)
  next
    case False
    with Nil have r: "m doc (FStr k) = Inr doc'"
      by (simp add: modify_path_last step_last_other)
    with m False have "\<not> isArray doc'" and "m doc' (FStr k) = Inr doc'"
      unfolding settles_def by blast+
    then show ?thesis
      by (simp add: modify_path_last step_last_other)
  qed
next
  case (Cons k2 rest)
  note IH = Cons.IH
  note run = Cons.prems[unfolded modify_path_inner]
  show ?case
  proof (cases doc)
    case (JArr xs)
    show ?thesis
    proof (cases "length xs \<le> toNumber k")
      case True
      with run JArr obtain c' where
        n: "numeric k" and
        c: "modify_path m (JObj []) (k2 # rest) = Inr c'" and
        d: "doc' = JArr (arr_set (pad_null xs (toNumber k) @ [JObj []]) (toNumber k) c')"
        by (auto simp: step_inner_array field_index_def split: if_splits sum.splits)
      from modify_path_typeof[OF m c] have ty: "typeof c' = ''object''" by simp
      have len: "toNumber k < length (arr_set (pad_null xs (toNumber k) @ [JObj []]) (toNumber k) c')"
        by (simp add: length_arr_set)
      show ?thesis
        unfolding modify_path_inner d
        using n len ty IH[OF c]
        by (simp add: step_inner_array arr_set_nth field_index_def arr_set_twice)
    next
      case False
      with run JArr obtain c' where
        n: "numeric k" and
        c: "modify_path m (xs ! toNumber k) (k2 # rest) = Inr c'" and
        d: "doc' = JArr (arr_set xs (toNumber k) c')" and
        ty0: "typeof (xs ! toNumber k) = ''object''"
        by (auto simp: step_inner_array field_index_def split: if_splits sum.splits)
      from modify_path_typeof[OF m c] ty0 have ty: "typeof c' = ''object''" by simp
      have len: "toNumber k < length (arr_set xs (toNumber k) c')"
        by (simp add: length_arr_set)
      show ?thesis
        unfolding modify_path_inner d
        using n len ty IH[OF c]
        by (simp add: step_inner_array arr_set_nth field_index_def arr_set_twice)
    qed
  next
    case (JObj kvs)
    from run JObj obtain c c' kvs0 where
      c: "modify_path m c (k2 # rest) = Inr c'" and
      d: "doc' = JObj (AList.update k c' kvs0)"
      by (auto simp: step_inner_object field_key_def split: if_splits sum.splits)
    show ?thesis
      unfolding modify_path_inner d
      using IH[OF c]
      by (simp add: step_inner_object has_key_update obj_get_update field_key_def update_twice)
  next
    case (JOid h)
    with run show ?thesis
      by (auto simp: modify_path_inner step_inner_oid split: sum.splits)
  qed (use run in \<open>auto simp: step_inner_primitive\<close>)
qed

lemma split_dot_nonempty: "split_dot s \<noteq> []"
  by (induction s) (auto split: list.splits)

lemma settles_set: "settles (\<lambda>t f. mod_set t f v)"
  unfolding settles_def mod_set_def cloneDeep_def
proof (intro allI impI)
  fix t f t'
  assume a: "prop_set t f v = Inr t'"
  then show "prop_set t' f v = Inr t' \<and> typeof t' = typeof t \<and> isArray t' = isArray t \<and>
        (\<forall>xs n. t = JArr xs \<and> f = FNum n \<and> n \<le> length xs \<longrightarrow> (\<exists>xs'. t' = JArr xs' \<and> n \<le> length xs'))"
    by (cases t) (auto simp: update_twice arr_set_twice length_arr_set split: option.splits)
qed

lemma addToSet_value_twice: "addToSet_value (addToSet_value x v) v = addToSet_value x v"
  by (auto simp: addToSet_value_def equal_f_def list_ex_iff)

lemma nth_or_undefined_arr_set: "nth_or_undefined (arr_set xs i c) i = c"
  by (auto simp: nth_or_undefined_def length_arr_set arr_set_nth)

lemma mod_addToSet_plain:
  "\<not> isEach v \<Longrightarrow>
   mod_addToSet t f v =
     (case prop_get t f of
        Inl e \<Rightarrow> Inl e
      | Inr JUndefined \<Rightarrow> prop_set t f (JArr [v])
      | Inr (JArr x) \<Rightarrow> prop_set t f (JArr (addToSet_value x v))
      | Inr _ \<Rightarrow> Inl AddToSetToNonArray)"
  by (auto simp: mod_addToSet_def split: sum.splits jsval.splits)

lemma settles_addToSet:
  assumes "\<not> isEach v"
  shows "settles (\<lambda>t f. mod_addToSet t f v)"
  unfolding settles_def mod_addToSet_plain[OF assms]
proof (intro allI impI)
  fix t f t'
  assume a: "(case prop_get t f of
        Inl e \<Rightarrow> Inl e
      | Inr JUndefined \<Rightarrow> prop_set t f (JArr [v])
      | Inr (JArr x) \<Rightarrow> prop_set t f (JArr (addToSet_value x v))
      | Inr _ \<Rightarrow> Inl AddToSetToNonArray) = Inr t'"
  have one: "addToSet_value [v] v = [v]"
    by (simp add: addToSet_value_def equal_f_def)
  from a show "(case prop_get t' f of
        Inl e \<Rightarrow> Inl e
      | Inr JUndefined \<Rightarrow> prop_set t' f (JArr [v])
      | Inr (JArr x) \<Rightarrow> prop_set t' f (JArr (addToSet_value x v))
      | Inr _ \<Rightarrow> Inl AddToSetToNonArray) = Inr t' \<and>
      typeof t' = typeof t \<and> isArray t' = isArray t \<and>
        (\<forall>xs n. t = JArr xs \<and> f = FNum n \<and> n \<le> length xs \<longrightarrow> (\<exists>xs'. t' = JArr xs' \<and> n \<le> length xs'))"
    by (cases t)
       (auto simp: one update_twice arr_set_twice length_arr_set obj_get_update
                   nth_or_undefined_arr_set addToSet_value_twice
             split: option.splits jsval.splits if_splits)
qed

subsection \<open>C1: the id index after remove\<close>

text \<open>
  C1 says that after every committed operation the id index maps the \<^verbatim>\<open>_id\<close> of each
  stored document to its position, and that remove rebuilds the entries of the documents
  the splice shifted. \<^verbatim>\<open>remove\<close> deletes the entry of the removed document and splices
  \<^verbatim>\<open>docs\<close>, and leaves every other entry as it was: after two inserts (index correct) and
  the removal of the first document, the second document is at position 0 and its index
  entry still says 1.
\<close>

theorem remove_leaves_stale_index:
  "index_invariant two_docs \<and>
   coll_remove env0 two_docs (JObj [(''_id'', JStr ''1'')]) =
     (Inr [JObj [(''_id'', JStr ''1''), (''a'', JNum 1), (''timestamp'', JNum 1600000000)]],
      \<lparr>docs = [JObj [(''_id'', JStr ''2''), (''a'', JStr ''x''), (''timestamp'', JNum 1600000001)]],
       doc_indexes = [(''2'', 1)], stores = [], delivered = [], oids = 2\<rparr>) \<and>
   \<not> index_invariant (snd (coll_remove env0 two_docs (JObj [(''_id'', JStr ''1'')])))"
  by code_simp

text \<open>\<^verbatim>\<open>insert\<close>, for its part, keeps the index right whenever the identifier it stores is not
  in the index yet.\<close>

lemma insert_index:
  assumes "coll_insert E s doc = (Inr stored, s')"
  shows "doc_indexes s' =
           AList.update (toPropertyKey (doc_id stored)) (length (docs s)) (doc_indexes s)"
  using assms
  by (cases doc)
     (auto simp: coll_insert_def cloneDeep_def Let_def doc_id_def obj_get_update field_key_def
           split: sum.splits if_splits)

lemma insert_keeps_index:
  assumes inv: "index_invariant s"
    and run: "coll_insert E s doc = (Inr stored, s')"
    and new: "map_of (doc_indexes s) (toPropertyKey (doc_id stored)) = None"
  shows "index_invariant s'"
proof -
  from insert_stored[OF run] have d: "docs s' = docs s @ [stored]" by blast
  note x = insert_index[OF run]
  have "map_of (doc_indexes s') (toPropertyKey (doc_id (docs s' ! i))) = Some i"
    if i: "i < length (docs s')" for i
  proof (cases "i < length (docs s)")
    case True
    with inv have old: "map_of (doc_indexes s) (toPropertyKey (doc_id (docs s ! i))) = Some i"
      by (simp add: index_invariant_def list_all_iff)
    with new have "toPropertyKey (doc_id (docs s ! i)) \<noteq> toPropertyKey (doc_id stored)"
      by auto
    with old True show ?thesis
      by (simp add: d x nth_append update_conv')
  next
    case False
    with i d have "i = length (docs s)" by simp
    then show ?thesis
      by (simp add: d x update_conv')
  qed
  then show ?thesis
    by (simp add: index_invariant_def list_all_iff)
qed

subsection \<open>C2: replacement in strict mode\<close>

text \<open>
  C2 says that in strict mode an update document without a \<^verbatim>\<open>$\<close> key replaces the matched
  document except for its \<^verbatim>\<open>_id\<close>, so that \<^verbatim>\<open>update({a:1}, {b:2})\<close> leaves
  \<^verbatim>\<open>{_id: ..., b: 2}\<close>. The loop of the override branch deletes from the copy of the
  update document exactly the keys it should keep: the stored document is \<^verbatim>\<open>{_id: "1"}\<close>.
\<close>

theorem strict_replacement_drops_fields:
  "coll_update env0 one_doc (JObj [(''a'', JNum 1)]) [(''b'', JNum 2)] strict =
     (Inr \<lparr>updated_documents = Some [JObj [(''_id'', JStr ''1'')]], updated_count = 1,
           inserted_documents = None, inserted_count = 0\<rparr>,
      \<lparr>docs = [JObj [(''_id'', JStr ''1'')]], doc_indexes = [(''1'', 0)],
       stores = [], delivered = [], oids = 1\<rparr>)"
  by code_simp

text \<open>The same for every replacement whose keys are all plain and without a dot: nothing
  of the update document is kept.\<close>

lemma foldl_override_step:
  "list_all (\<lambda>k. \<not> is_modifier_key k \<and> CHR ''.'' \<notin> set k) ks \<Longrightarrow>
     foldl override_step kvs ks = filter (\<lambda>p. fst p \<notin> set ks) kvs"
proof (induction ks arbitrary: kvs)
  case Nil
  then show ?case by simp
next
  case (Cons k ks)
  have "AList.delete k kvs = filter (\<lambda>p. fst p \<noteq> k) kvs" for kvs :: "(string \<times> jsval) list"
    by (induction kvs) auto
  with Cons show ?case
    by (auto simp: override_step_def intro: filter_cong)
qed

lemma strict_replacement_keeps_only_id:
  assumes "list_all (\<lambda>k. \<not> is_modifier_key k \<and> CHR ''.'' \<notin> set k) (map fst upd)"
    and "prop_get doc (FStr ''_id'') = Inr idv"
  shows "override_doc upd doc = Inr (JObj [(''_id'', idv)])"
proof -
  have "filter (\<lambda>p. fst p \<notin> set (map fst upd)) upd = []"
    by (induction upd) auto
  with foldl_override_step[OF assms(1), of upd] assms(2) show ?thesis
    by (simp add: override_doc_def)
qed

subsection \<open>C3: a failing update\<close>




subsection \<open>C4: mixed keys in strict mode\<close>

text \<open>
  C4 says that in strict mode an update document with both a \<^verbatim>\<open>$\<close> key and a plain key
  raises a validation error, in either key order. The check compares each key with the
  modifiers seen so far: a plain key after a \<^verbatim>\<open>$\<close> key raises, a plain key before one does
  not, and the update is then applied as a sequence of modifiers. The check sits in the
  loop over the matched documents, so when nothing matches no key is looked at.
\<close>

theorem plain_key_before_modifier_is_accepted:
  "fst (coll_update env0 one_doc (JObj [(''a'', JNum 1)])
          [(''b'', JNum 2), (''$set'', JObj [(''c'', JNum 1)])] strict) =
     Inr \<lparr>updated_documents =
            Some [JObj [(''_id'', JStr ''1''), (''a'', JNum 1), (''timestamp'', JNum 1600000000),
                        (''c'', JNum 1)]],
          updated_count = 1, inserted_documents = None, inserted_count = 0\<rparr> \<and>
   fst (coll_update env0 one_doc (JObj [(''a'', JNum 1)])
          [(''$set'', JObj [(''c'', JNum 1)]), (''b'', JNum 2)] strict) =
     Inl AllUpdateFieldsMustBeOperators \<and>
   fst (coll_update env0 one_doc (JObj [(''a'', JNum 9)])
          [(''$set'', JObj [(''c'', JNum 1)]), (''b'', JNum 2)] strict) =
     Inr \<lparr>updated_documents = None, updated_count = 0,
          inserted_documents = None, inserted_count = 0\<rparr>"
  by code_simp

text \<open>The order the check does catch: in strict mode a plain key anywhere after a \<^verbatim>\<open>$\<close> key
  raises.\<close>

lemma scan_keys_after_modifier:
  "updateAsMongo opts \<Longrightarrow> \<not> is_modifier_key p \<Longrightarrow>
     \<exists>e. scan_keys opts (mid @ p # post) True ov = Inl e"
  by (induction mid arbitrary: ov) (auto simp: Let_def)

lemma modifier_then_plain_key_raises:
  "updateAsMongo opts \<Longrightarrow> is_modifier_key m \<Longrightarrow> \<not> is_modifier_key p \<Longrightarrow>
     \<exists>e. scan_keys opts (pre @ m # mid @ p # post) hasModifier ov = Inl e"
proof (induction pre arbitrary: hasModifier ov)
  case Nil
  then show ?case
    using scan_keys_after_modifier[of opts p mid post] by (auto simp: Let_def)
next
  case (Cons k pre)
  then show ?case by (auto simp: Let_def)
qed

text \<open>The order it misses: with \<^verbatim>\<open>multi\<close> unset, plain keys followed by \<^verbatim>\<open>$\<close> keys pass the
  check, and the update is treated as a sequence of modifiers.\<close>

lemma scan_keys_modifiers:
  "updateAsMongo opts \<Longrightarrow> list_all is_modifier_key post \<Longrightarrow> post \<noteq> [] \<Longrightarrow>
     scan_keys opts post hasModifier ov = Inr (Some False)"
proof (induction post arbitrary: hasModifier ov)
  case Nil
  then show ?case by simp
next
  case (Cons k post)
  then show ?case by (cases post) (auto simp: Let_def)
qed

lemma plain_keys_then_modifiers_accepted:
  "updateAsMongo opts \<Longrightarrow> \<not> multi opts \<Longrightarrow> list_all (\<lambda>k. \<not> is_modifier_key k) pre \<Longrightarrow>
   list_all is_modifier_key post \<Longrightarrow> post \<noteq> [] \<Longrightarrow>
     scan_keys opts (pre @ post) False ov = Inr (Some False)"
proof (induction pre arbitrary: ov)
  case Nil
  then show ?case by (simp add: scan_keys_modifiers)
next
  case (Cons k pre)
  then show ?case by (simp add: Let_def)
qed

subsection \<open>C5: insert normalizes the identifier\<close>



subsection \<open>C6: path resolution at an array\<close>




subsection \<open>C7: the modifier $inc\<close>



subsection \<open>C8: applying a modifier twice\<close>

text \<open>
  C8 says that \<^verbatim>\<open>$set\<close> applied twice gives the document it gives applied once, and that
  \<^verbatim>\<open>$addToSet\<close> of the same value applied twice gives the array it gives applied once.
  \<^verbatim>\<open>$addToSet\<close> looks for the \<^verbatim>\<open>$each\<close> wrapper only when the field already holds an
  array. On a document without the field the first application stores the wrapper
  itself as the only element, and the second then appends the values inside it.
\<close>

theorem addToSet_each_twice_differs:
  "applyModifier env0 (JObj [(''_id'', JStr ''1'')]) ''$addToSet''
       (JObj [(''tags'', JObj [(''$each'', JArr [JNum 1])])]) =
     Inr (JObj [(''_id'', JStr ''1''), (''tags'', JArr [JObj [(''$each'', JArr [JNum 1])]])]) \<and>
   applyModifier env0
       (JObj [(''_id'', JStr ''1''), (''tags'', JArr [JObj [(''$each'', JArr [JNum 1])]])]) ''$addToSet''
       (JObj [(''tags'', JObj [(''$each'', JArr [JNum 1])])]) =
     Inr (JObj [(''_id'', JStr ''1''), (''tags'', JArr [JObj [(''$each'', JArr [JNum 1])], JNum 1])]) \<and>
   docs (snd (coll_update env0 one_doc (JObj [])
                [(''$addToSet'', JObj [(''tags'', JObj [(''$each'', JArr [JNum 1])])])] strict)) =
     [JObj [(''_id'', JStr ''1''), (''a'', JNum 1), (''timestamp'', JNum 1600000000),
            (''tags'', JArr [JObj [(''$each'', JArr [JNum 1])]])]] \<and>
   docs (snd (coll_update env0
                (snd (coll_update env0 one_doc (JObj [])
                   [(''$addToSet'', JObj [(''tags'', JObj [(''$each'', JArr [JNum 1])])])] strict))
                (JObj [])
                [(''$addToSet'', JObj [(''tags'', JObj [(''$each'', JArr [JNum 1])])])] strict)) =
     [JObj [(''_id'', JStr ''1''), (''a'', JNum 1), (''timestamp'', JNum 1600000000),
            (''tags'', JArr [JObj [(''$each'', JArr [JNum 1])], JNum 1])]]"
  by code_simp

text \<open>
  Elsewhere the claim holds on the model: \<^verbatim>\<open>$set\<close> applied to its own result changes
  nothing, and neither does \<^verbatim>\<open>$addToSet\<close> of a value that is not an \<^verbatim>\<open>$each\<close> wrapper.
\<close>

lemma set_twice_is_set_once:
  assumes "applyModifier E doc ''$set'' (JObj [(k, v)]) = Inr doc'"
  shows "applyModifier E doc' ''$set'' (JObj [(k, v)]) = Inr doc'"
proof -
  obtain p ps where s: "split_dot k = p # ps"
    using split_dot_nonempty[of k] by (cases "split_dot k") auto
  from assms show ?thesis
    unfolding applyModifier_set s by (rule modify_path_twice[OF settles_set])
qed

lemma addToSet_twice_is_once:
  assumes "\<not> isEach v"
    and "applyModifier E doc ''$addToSet'' (JObj [(k, v)]) = Inr doc'"
  shows "applyModifier E doc' ''$addToSet'' (JObj [(k, v)]) = Inr doc'"
proof -
  obtain p ps where s: "split_dot k = p # ps"
    using split_dot_nonempty[of k] by (cases "split_dot k") auto
  from assms(2) show ?thesis
    unfolding applyModifier_addToSet s by (rule modify_path_twice[OF settles_addToSet[OF assms(1)]])
qed

subsection \<open>C9: events\<close>




subsection \<open>C10: upsert\<close>

text \<open>
  C10: when the selector matches no document and \<^verbatim>\<open>upsert\<close> is set, \<^verbatim>\<open>update\<close> passes the
  update document itself to \<^verbatim>\<open>insert\<close>. Every field of it other than \<^verbatim>\<open>_id\<close> and
  \<^verbatim>\<open>timestamp\<close> is stored as it is, \<^verbatim>\<open>$\<close> keys included, no modifier is applied, and the
  result counts one inserted and no updated document.
\<close>

theorem upsert_inserts_update_document:
  assumes "compileSelector E (selection_of sel) = Inr match"
    and "filter match (docs s) = []"
    and "upsert opts"
  shows "coll_update E s sel upd opts =
           (case coll_insert E (emit s (if multi opts then ''find'' else ''findOne'') []) (JObj upd) of
              (Inl e, s2) \<Rightarrow> (Inl e, s2)
            | (Inr inserted, s2) \<Rightarrow>
                (Inr \<lparr>updated_documents = None, updated_count = 0,
                      inserted_documents = Some inserted, inserted_count = 1\<rparr>, s2)) \<and>
         (\<forall>r s'. coll_update E s sel upd opts = (Inr r, s') \<longrightarrow>
            (\<exists>kvs. inserted_documents r = Some (JObj kvs) \<and>
                   inserted_count r = 1 \<and> updated_count r = 0 \<and> updated_documents r = None \<and>
                   docs s' = docs s @ [JObj kvs] \<and>
                   (\<forall>k. k \<noteq> ''_id'' \<and> k \<noteq> ''timestamp'' \<longrightarrow> obj_get kvs k = obj_get upd k)))"
proof -
  let ?s1 = "emit s (if multi opts then ''find'' else ''findOne'') []"
  have eq: "coll_update E s sel upd opts =
           (case coll_insert E ?s1 (JObj upd) of
              (Inl e, s2) \<Rightarrow> (Inl e, s2)
            | (Inr inserted, s2) \<Rightarrow>
                (Inr \<lparr>updated_documents = None, updated_count = 0,
                      inserted_documents = Some inserted, inserted_count = 1\<rparr>, s2))"
    using assms(3) by (simp add: coll_update_def update_targets_no_match[OF assms(1,2)])
  have "\<exists>kvs. inserted_documents r = Some (JObj kvs) \<and>
                   inserted_count r = 1 \<and> updated_count r = 0 \<and> updated_documents r = None \<and>
                   docs s' = docs s @ [JObj kvs] \<and>
                   (\<forall>k. k \<noteq> ''_id'' \<and> k \<noteq> ''timestamp'' \<longrightarrow> obj_get kvs k = obj_get upd k)"
    if ok: "coll_update E s sel upd opts = (Inr r, s')" for r s'
  proof -
    from ok eq obtain inserted where
      ins: "coll_insert E ?s1 (JObj upd) = (Inr inserted, s')" and
      r: "r = \<lparr>updated_documents = None, updated_count = 0,
                      inserted_documents = Some inserted, inserted_count = 1\<rparr>"
      by (auto split: prod.splits sum.splits)
    from insert_stored[OF ins] show ?thesis
      using r by (auto simp: obj_get_update)
  qed
  with eq show ?thesis by blast
qed

theorem upsert_inserts_update_document_witness:
  "compileSelector env0 (selection_of (JObj [(''a'', JNum 9)])) =
     Inr (\<lambda>d. list_all (clause_matches d) [(''a'', JNum 9)]) \<and>
   filter (\<lambda>d. list_all (clause_matches d) [(''a'', JNum 9)]) (docs one_doc) = [] \<and>
   upsert upserting \<and>
   coll_update env0 one_doc (JObj [(''a'', JNum 9)])
       [(''$set'', JObj [(''c'', JNum 1)]), (''b'', JNum 2)] upserting =
     (Inr \<lparr>updated_documents = None, updated_count = 0,
           inserted_documents =
             Some (JObj [(''$set'', JObj [(''c'', JNum 1)]), (''b'', JNum 2),
                         (''_id'', JOid ''5f0000000000000000000101''),
                         (''timestamp'', JNum 1600000002)]),
           inserted_count = 1\<rparr>,
      \<lparr>docs = [JObj [(''_id'', JStr ''1''), (''a'', JNum 1), (''timestamp'', JNum 1600000000)],
               JObj [(''$set'', JObj [(''c'', JNum 1)]), (''b'', JNum 2),
                     (''_id'', JOid ''5f0000000000000000000101''),
                     (''timestamp'', JNum 1600000002)]],
       doc_indexes = [(''1'', 0), (''5f0000000000000000000101'', 1)],
       stores = [], delivered = [], oids = 3\<rparr>)"
proof -
  have h1: "compileSelector env0 (selection_of (JObj [(''a'', JNum 9)])) =
     Inr (\<lambda>d. list_all (clause_matches d) [(''a'', JNum 9)])"
    by (simp add: env0_def selection_of_def literal_selector_def literal_clause_def
                  is_modifier_key_def)
  have h2: "filter (\<lambda>d. list_all (clause_matches d) [(''a'', JNum 9)]) (docs one_doc) = []"
    by (simp add: one_doc_eq clause_matches_def obj_get_def field_key_def equal_f_def)
  have h3: "upsert upserting"
    by (simp add: upserting_def)
  have ev: "(case coll_insert env0 (emit one_doc (if multi upserting then ''find'' else ''findOne'') [])
                   (JObj [(''$set'', JObj [(''c'', JNum 1)]), (''b'', JNum 2)]) of
              (Inl e, s2) \<Rightarrow> (Inl e, s2)
            | (Inr inserted, s2) \<Rightarrow>
                (Inr \<lparr>updated_documents = None, updated_count = 0,
                      inserted_documents = Some inserted, inserted_count = 1\<rparr>, s2)) =
     (Inr \<lparr>updated_documents = None, updated_count = 0,
           inserted_documents =
             Some (JObj [(''$set'', JObj [(''c'', JNum 1)]), (''b'', JNum 2),
                         (''_id'', JOid ''5f0000000000000000000101''),
                         (''timestamp'', JNum 1600000002)]),
           inserted_count = 1\<rparr>,
      \<lparr>docs = [JObj [(''_id'', JStr ''1''), (''a'', JNum 1), (''timestamp'', JNum 1600000000)],
               JObj [(''$set'', JObj [(''c'', JNum 1)]), (''b'', JNum 2),
                     (''_id'', JOid ''5f0000000000000000000101''),
                     (''timestamp'', JNum 1600000002)]],
       doc_indexes = [(''1'', 0), (''5f0000000000000000000101'', 1)],
       stores = [], delivered = [], oids = 3\<rparr>)"
    by code_simp
  from upsert_inserts_update_document[OF h1 h2 h3, of "[(''$set'', JObj [(''c'', JNum 1)]), (''b'', JNum 2)]"]
  have "coll_update env0 one_doc (JObj [(''a'', JNum 9)])
       [(''$set'', JObj [(''c'', JNum 1)]), (''b'', JNum 2)] upserting =
     (case coll_insert env0 (emit one_doc (if multi upserting then ''find'' else ''findOne'') [])
                   (JObj [(''$set'', JObj [(''c'', JNum 1)]), (''b'', JNum 2)]) of
              (Inl e, s2) \<Rightarrow> (Inl e, s2)
            | (Inr inserted, s2) \<Rightarrow>
                (Inr \<lparr>updated_documents = None, updated_count = 0,
                      inserted_documents = Some inserted, inserted_count = 1\<rparr>, s2))"
    by blast
  with ev h1 h2 h3 show ?thesis by simp
qed

end
